theory Spec2Isabelle
  imports Complex_Main "HOL-Library.Word"
begin

section \<open>Data model of the audio visualizer\<close>

text \<open>
  The dashboard is a React component tree. The parent component \<open>AudioVisualizer\<close> owns
  the capture state; the spectrograph and the time-series views each own one history.
  A \<open>Float32Array\<close> is modelled as the list of the reals it holds (finite
  numbers: NaN and the infinities are not part of the model, except where a division
  by the buffer length can produce NaN), a \<open>Uint8Array\<close> as a list of 8-bit words,
  \<open>T | null\<close> as an option. Where the code computes a product and stores it in a
  \<open>Float32Array\<close>, the roundings to double and to single precision are modelled.
\<close>

type_synonym float32_array = "real list"
type_synonym uint8_array = "8 word list"

datatype audio_context = AudioContext

record analyser_node =
  fftSize :: nat

record app_state =
  isRecording :: bool
  audioData :: "float32_array option"
  audioContext :: "audio_context option"
  analyser :: "analyser_node option"
  visualizationType :: string
  timeScale :: real
  gain :: real
  showSettings :: bool
  recordedData :: "float32_array list"
  isPlaying :: bool
  playbackIndex :: nat

text \<open>What a handler does to the world outside the component state.\<close>

datatype effect =
    Toast string string
  | ConsoleError string string
  | Download string float32_array

datatype js_error = RangeError

section \<open>Saving a recording\<close>

text \<open>
  \<open>recordedData.reduce((acc, curr) => acc + curr.length, 0)\<close>: the size of the merged
  array.
\<close>

definition sample_count :: "float32_array list \<Rightarrow> nat" where
  "sample_count rd = foldl (\<lambda>acc curr. acc + length curr) 0 rd"

text \<open>
  \<open>target.set(source, offset)\<close> of a typed array: it overwrites the elements from
  \<open>offset\<close> on and throws a RangeError when the source does not fit.
\<close>

definition typed_set :: "'a list \<Rightarrow> 'a list \<Rightarrow> nat \<Rightarrow> js_error + 'a list" where
  "typed_set target source offset =
     (if length target < offset + length source then Inl RangeError
      else Inr (take offset target @ source @ drop (offset + length source) target))"

text \<open>
  The \<open>forEach\<close> of \<open>handleSaveRecording\<close>: each buffer is written at the running
  offset, which then advances by the buffer's length.
\<close>

fun forEach_set :: "'a list list \<Rightarrow> nat \<Rightarrow> 'a list \<Rightarrow> js_error + 'a list" where
  "forEach_set [] offset mergedArray = Inr mergedArray"
| "forEach_set (array # rest) offset mergedArray =
     (case typed_set mergedArray array offset of
        Inl e \<Rightarrow> Inl e
      | Inr m \<Rightarrow> forEach_set rest (offset + length array) m)"

text \<open>
  \<open>now.toISOString().replace(/[:.]/g, '-').slice(0, 19)\<close>; the ISO string of the
  current time is an input.
\<close>

definition timestamp :: "string \<Rightarrow> string" where
  "timestamp isoNow =
     take 19 (map (\<lambda>c. if c = CHR '':'' \<or> c = CHR ''.'' then CHR ''-'' else c) isoNow)"

definition download_name :: "string \<Rightarrow> string" where
  "download_name isoNow = ''radio-astronomy-recording-'' @ timestamp isoNow @ ''.dat''"

text \<open>
  \<open>handleSaveRecording\<close> calls no state setter. It returns the (unchanged) state and
  the effects in the order they happen: the download of the blob built from the merged
  array, then the toast.
\<close>

definition handleSaveRecording ::
  "string \<Rightarrow> app_state \<Rightarrow> js_error + (app_state \<times> effect list)" where
  "handleSaveRecording isoNow st =
     (if length (recordedData st) = 0 then Inr (st, [])
      else
        (case forEach_set (recordedData st) 0
                (replicate (sample_count (recordedData st)) 0) of
           Inl e \<Rightarrow> Inl e
         | Inr mergedArray \<Rightarrow>
             Inr (st, [Download (download_name isoNow) mergedArray,
                       Toast ''Recording Saved'' ''Your data has been saved to a file''])))"

section \<open>Capturing audio\<close>

text \<open>The state of \<open>AudioVisualizer\<close> when it is mounted (the \<open>useState\<close> defaults).\<close>

definition initial_state :: app_state where
  "initial_state =
     \<lparr>isRecording = False, audioData = None, audioContext = None, analyser = None,
      visualizationType = ''waveform'', timeScale = 1, gain = 1, showSettings = False,
      recordedData = [], isPlaying = False, playbackIndex = 0\<rparr>"

text \<open>
  The first effect of \<open>AudioVisualizer\<close> opens the input stream, when a recording is
  wanted and no audio context exists yet:
  \<^verbatim>\<open>
  const context = new AudioContext();
  setAudioContext(context);
  navigator.mediaDevices.getUserMedia(...)
    .then(stream => { ...; setAnalyser(analyserNode); })
    .catch(err => { console.error(...); setIsRecording(false); });
  \<close>
  What the platform answers is an input of the model: the constructor of the context
  or the call of \<open>getUserMedia\<close> can throw synchronously, which nothing catches; the
  promise can reject; it can resolve and the body of \<open>then\<close> can throw while it builds
  the analyser graph, which rejects the promise that \<open>catch\<close> is chained on; or all
  goes well.
\<close>

datatype media_outcome =
    ContextThrows string
  | GetUserMediaThrows string
  | StreamRejected string
  | GraphThrows string
  | StreamResolved

datatype uncaught = Uncaught string

text \<open>The two handlers of the promise; each runs in the state of the time it is called.\<close>

definition then_handler :: "app_state \<Rightarrow> app_state \<times> effect list" where
  "then_handler st = (st\<lparr>analyser := Some \<lparr>fftSize = 2048\<rparr>\<rparr>, [])"

definition catch_handler :: "string \<Rightarrow> app_state \<Rightarrow> app_state \<times> effect list" where
  "catch_handler err st =
     (st\<lparr>isRecording := False\<rparr>, [ConsoleError ''Error accessing audio device:'' err])"

definition setup_audio_effect ::
  "media_outcome \<Rightarrow> app_state \<Rightarrow> uncaught + (app_state \<times> effect list)" where
  "setup_audio_effect outcome st =
     (if isRecording st \<and> audioContext st = None then
        (case outcome of
           ContextThrows e \<Rightarrow> Inl (Uncaught e)
         | GetUserMediaThrows e \<Rightarrow> Inl (Uncaught e)
         | StreamRejected err \<Rightarrow>
             Inr (catch_handler err (st\<lparr>audioContext := Some AudioContext\<rparr>))
         | GraphThrows err \<Rightarrow>
             Inr (catch_handler err (st\<lparr>audioContext := Some AudioContext\<rparr>))
         | StreamResolved \<Rightarrow>
             Inr (then_handler (st\<lparr>audioContext := Some AudioContext\<rparr>)))
      else Inr (st, []))"

subsection \<open>Rounding to double and to single precision\<close>

text \<open>
  \<open>value * gain\<close> is a product of two doubles, rounded to a double; \<open>map\<close> on a
  \<open>Float32Array\<close> stores it rounded to single precision. Both roundings are to the
  nearest number of the format, ties to the even significand.

  The binary exponent of a positive real: the \<open>e\<close> with \<open>2^e \<le> x < 2^(e+1)\<close>.
\<close>

function float_exponent :: "real \<Rightarrow> int" where
  "float_exponent x =
     (if 2 \<le> x then float_exponent (x / 2) + 1
      else if 0 < x \<and> x < 1 then float_exponent (x * 2) - 1
      else 0)"
  by pat_completeness auto
termination
proof (relation "measure (\<lambda>x. nat \<bar>\<lfloor>log 2 x\<rfloor>\<bar>)")
  show "wf (measure (\<lambda>x. nat \<bar>\<lfloor>log 2 x\<rfloor>\<bar>))" by simp
next
  fix x :: real
  assume x: "2 \<le> x"
  then have "log 2 (x / 2) = log 2 x - 1" by (simp add: log_divide)
  then have f: "\<lfloor>log 2 (x / 2)\<rfloor> = \<lfloor>log 2 x\<rfloor> - 1" by simp
  from x have "1 \<le> log 2 x" by (simp add: le_log_iff)
  then have "1 \<le> \<lfloor>log 2 x\<rfloor>" by (simp add: le_floor_iff)
  then have "nat \<bar>\<lfloor>log 2 x\<rfloor> - 1\<bar> < nat \<bar>\<lfloor>log 2 x\<rfloor>\<bar>" by linarith
  then show "(x / 2, x) \<in> measure (\<lambda>x. nat \<bar>\<lfloor>log 2 x\<rfloor>\<bar>)"
    by (simp only: in_measure f)
next
  fix x :: real
  assume "\<not> 2 \<le> x" and x: "0 < x \<and> x < 1"
  then have "log 2 (x * 2) = log 2 x + 1" by (simp add: log_mult)
  then have f: "\<lfloor>log 2 (x * 2)\<rfloor> = \<lfloor>log 2 x\<rfloor> + 1" by simp
  from x have "log 2 x < 0" by simp
  then have "\<lfloor>log 2 x\<rfloor> < 0" by (simp add: floor_less_iff)
  then have "nat \<bar>\<lfloor>log 2 x\<rfloor> + 1\<bar> < nat \<bar>\<lfloor>log 2 x\<rfloor>\<bar>" by linarith
  then show "(x * 2, x) \<in> measure (\<lambda>x. nat \<bar>\<lfloor>log 2 x\<rfloor>\<bar>)"
    by (simp only: in_measure f)
qed

declare float_exponent.simps [simp del]

definition round_half_even :: "real \<Rightarrow> int" where
  "round_half_even t =
     (let f = \<lfloor>t\<rfloor>; d = t - of_int f in
        if d < 1 / 2 then f else if 1 / 2 < d then f + 1
        else if even f then f else f + 1)"

text \<open>
  Rounding to the format with \<open>p\<close> significand bits and least normal exponent
  \<open>emin\<close>: the number is a multiple of the quantum \<open>2^(e - (p - 1))\<close> of its binade,
  and of the least quantum below \<open>2^emin\<close> (subnormal numbers). The exponent is not
  bounded above: a number beyond the largest finite one of the format, which
  JavaScript turns into an infinity, has no value in this model of finite samples,
  and the statements about stored values keep to the finite range.
\<close>

definition to_float :: "nat \<Rightarrow> int \<Rightarrow> real \<Rightarrow> real" where
  "to_float p emin x =
     (let e = max emin (float_exponent \<bar>x\<bar>); q = 2 powi (e - (int p - 1)) in
        of_int (round_half_even (x / q)) * q)"

definition to_float32 :: "real \<Rightarrow> real" where
  "to_float32 x = to_float 24 (- 126) x"

definition to_float64 :: "real \<Rightarrow> real" where
  "to_float64 x = to_float 53 (- 1022) x"

text \<open>The largest finite single-precision number.\<close>

definition float32_max :: real where
  "float32_max = (2 ^ 24 - 1) * 2 ^ 104"

subsection \<open>The animation tick\<close>

text \<open>
  The second effect runs when \<open>analyser\<close>, \<open>isRecording\<close> or \<open>gain\<close> change. Unless it
  returns early, it defines \<open>updateData\<close>, a closure over the three values of that
  render, and calls it. The cleanup of the effect is empty, and the guard of
  \<open>updateData\<close> reads the values of the closure: a loop that has started keeps
  ticking with its closure after the state has changed.
\<close>

record update_closure =
  cl_isRecording :: bool
  cl_analyser :: "analyser_node option"
  cl_gain :: real

definition audio_effect_closure :: "app_state \<Rightarrow> update_closure option" where
  "audio_effect_closure st =
     (if analyser st = None \<or> \<not> isRecording st then None
      else Some \<lparr>cl_isRecording = isRecording st, cl_analyser = analyser st,
                 cl_gain = gain st\<rparr>)"

text \<open>
  One animation tick. \<open>dataArray\<close> is the content of the buffer after
  \<open>analyser.getFloatTimeDomainData(dataArray)\<close>. The boolean tells whether the tick has
  scheduled the next one with \<open>requestAnimationFrame\<close>.
\<close>

definition updateData :: "update_closure \<Rightarrow> float32_array \<Rightarrow> app_state \<Rightarrow> app_state \<times> bool" where
  "updateData cl dataArray st =
     (if \<not> cl_isRecording cl \<or> cl_analyser cl = None then (st, False)
      else
        (let amplifiedData =
               map (\<lambda>value. to_float32 (to_float64 (value * cl_gain cl))) dataArray in
           (st\<lparr>audioData := Some amplifiedData,
               recordedData := recordedData st @ [amplifiedData]\<rparr>, True)))"

text \<open>A sequence of ticks, each with the closure that runs it and the samples it reads.\<close>

definition run_ticks :: "(update_closure \<times> float32_array) list \<Rightarrow> app_state \<Rightarrow> app_state" where
  "run_ticks ticks st = fold (\<lambda>(cl, dataArray) s. fst (updateData cl dataArray s)) ticks st"

text \<open>
  Whether a tick gets past the guard of \<open>updateData\<close>, and the buffer it then
  publishes and records.
\<close>

definition tick_runs :: "update_closure \<times> float32_array \<Rightarrow> bool" where
  "tick_runs t = (cl_isRecording (fst t) \<and> cl_analyser (fst t) \<noteq> None)"

definition tick_buffer :: "update_closure \<times> float32_array \<Rightarrow> float32_array" where
  "tick_buffer t = map (\<lambda>value. to_float32 (to_float64 (value * cl_gain (fst t)))) (snd t)"

definition in_unit_range :: "float32_array \<Rightarrow> bool" where
  "in_unit_range a = list_all (\<lambda>v. - 1 \<le> v \<and> v \<le> 1) a"

definition handleStartRecording :: "app_state \<Rightarrow> app_state \<times> effect list" where
  "handleStartRecording st =
     (st\<lparr>isRecording := True, recordedData := []\<rparr>,
      [Toast ''Recording Started'' ''Capturing audio input from your device''])"

definition setVisualizationType :: "string \<Rightarrow> app_state \<Rightarrow> app_state" where
  "setVisualizationType v st = st\<lparr>visualizationType := v\<rparr>"

section \<open>The time-series view\<close>

text \<open>A JavaScript number that may be NaN: the mean of an empty buffer is \<open>0 / 0\<close>.\<close>

datatype js_number = Num real | NaN

definition newDataPoint :: "float32_array \<Rightarrow> js_number" where
  "newDataPoint a =
     (if length a = 0 then NaN
      else Num (foldl (\<lambda>sum value. sum + \<bar>value\<bar>) 0 a / real (length a)))"

text \<open>The updater passed to \<open>setTimeSeriesData\<close>; \<open>slice(n)\<close> drops the first \<open>n\<close>.\<close>

definition append_point :: "'a \<Rightarrow> 'a list \<Rightarrow> 'a list" where
  "append_point p prev =
     (let newData = prev @ [p] in
        if length newData > 500 then drop (length newData - 500) newData else newData)"

definition time_series_effect ::
  "float32_array option \<Rightarrow> bool \<Rightarrow> js_number list \<Rightarrow> js_number list" where
  "time_series_effect data isActive prev =
     (case data of
        None \<Rightarrow> prev
      | Some a \<Rightarrow> if \<not> isActive then prev else append_point (newDataPoint a) prev)"

section \<open>The spectrograph view\<close>

definition historyLength :: nat where
  "historyLength = 300"

text \<open>
  Storing a number in a \<open>Uint8Array\<close> truncates it towards zero and reduces it modulo
  256.
\<close>

definition to_uint8 :: "real \<Rightarrow> 8 word" where
  "to_uint8 x = word_of_int (if 0 \<le> x then \<lfloor>x\<rfloor> else \<lceil>x\<rceil>)"

definition sampleIndex :: "nat \<Rightarrow> float32_array \<Rightarrow> nat" where
  "sampleIndex i a = nat \<lfloor>real i / 256 * real (length a)\<rfloor>"

definition intensity :: "real \<Rightarrow> real" where
  "intensity v = min 255 (max 0 (\<bar>v\<bar> * 1000))"

text \<open>The loop \<open>for (let i = 0; i < 256; i++)\<close> over the bins of the new buffer.\<close>

function fill_bins :: "float32_array \<Rightarrow> nat \<Rightarrow> uint8_array \<Rightarrow> uint8_array" where
  "fill_bins a i spectrumBuffer =
     (if i < 256 then
        fill_bins a (i + 1)
          (if sampleIndex i a < length a
           then spectrumBuffer[i := to_uint8 (intensity (a ! sampleIndex i a))]
           else spectrumBuffer)
      else spectrumBuffer)"
  by pat_completeness auto
termination
  by (relation "measure (\<lambda>(a, i, b). 256 - i)") auto

declare fill_bins.simps [simp del]

definition spectrum_of :: "float32_array \<Rightarrow> uint8_array" where
  "spectrum_of a = fill_bins a 0 (replicate 256 0)"

text \<open>The updater passed to \<open>setSpectrumHistory\<close>; \<open>slice(0, n)\<close> keeps the first \<open>n\<close>.\<close>

definition push_history :: "'a \<Rightarrow> 'a list \<Rightarrow> 'a list" where
  "push_history spectrumBuffer prev =
     (let newHistory = spectrumBuffer # prev in
        if length newHistory > historyLength then take historyLength newHistory
        else newHistory)"

definition processSpectrum :: "float32_array \<Rightarrow> uint8_array list \<Rightarrow> uint8_array list" where
  "processSpectrum a prev = push_history (spectrum_of a) prev"

definition spectrograph_effect ::
  "float32_array option \<Rightarrow> bool \<Rightarrow> uint8_array list \<Rightarrow> uint8_array list" where
  "spectrograph_effect data isActive prev =
     (case data of
        None \<Rightarrow> prev
      | Some a \<Rightarrow> if \<not> isActive then prev else processSpectrum a prev)"

text \<open>
  The history of a spectrograph that was mounted with an empty history and has
  processed the given buffers, the first one first.
\<close>

definition history_after :: "float32_array list \<Rightarrow> uint8_array list" where
  "history_after bufs = fold processSpectrum bufs []"

section \<open>The whole dashboard\<close>

text \<open>
  The parent's state together with the histories, which are state of the spectrograph
  and of the time-series component: a history exists only while its component is
  mounted (\<open>None\<close> otherwise). Each view is rendered inside the pane of its tab:
  \<^verbatim>\<open>
  <Tabs defaultValue="waveform" onValueChange={setVisualizationType}>
    <TabsContent value="spectrograph">
      <SpectrographVisualizer audioData={audioData}
         isActive={visualizationType === 'spectrograph'} />
  \<close>
  The \<open>Tabs\<close> component is not among the sources. Whether it keeps the panes of the
  inactive tabs mounted is the parameter \<open>keepMounted\<close> of the model.

  A pane after the tab has changed: a pane that is not shown and not kept is
  unmounted, and its state is lost. A component that is mounted anew starts from its
  initial state and runs its effect. A component that stays mounted runs its effect
  again when a dependency has changed; the dependencies are \<open>audioData\<close>, which a
  tab switch leaves alone, and \<open>isActive\<close>.
\<close>

record dashboard =
  app :: app_state
  spectrumHistory :: "uint8_array list option"
  timeSeriesData :: "js_number list option"

text \<open>The history of a pane; a component that is not mounted has none to start from.\<close>

definition history_or_empty :: "'h list option \<Rightarrow> 'h list" where
  "history_or_empty pane = (case pane of None \<Rightarrow> [] | Some h \<Rightarrow> h)"

definition pane_after_switch ::
  "bool \<Rightarrow> (bool \<Rightarrow> 'h \<Rightarrow> 'h) \<Rightarrow> 'h \<Rightarrow> bool \<Rightarrow> bool \<Rightarrow> 'h option \<Rightarrow> 'h option" where
  "pane_after_switch keepMounted effect initial wasActive isActive pane =
     (if \<not> keepMounted \<and> \<not> isActive then None
      else
        (case pane of
           None \<Rightarrow> Some (effect isActive initial)
         | Some h \<Rightarrow> Some (if wasActive \<noteq> isActive then effect isActive h else h)))"

text \<open>
  Selecting a tab calls \<open>setVisualizationType\<close> with the tab's value; the components
  are then rendered with the new state. Selecting the tab that is shown changes
  nothing.
\<close>

definition tabs_onValueChange :: "bool \<Rightarrow> string \<Rightarrow> dashboard \<Rightarrow> dashboard" where
  "tabs_onValueChange keepMounted v d =
     (if v = visualizationType (app d) then d
      else
        (let st = setVisualizationType v (app d) in
           \<lparr>app = st,
            spectrumHistory =
              pane_after_switch keepMounted (spectrograph_effect (audioData st)) []
                (visualizationType (app d) = ''spectrograph'') (v = ''spectrograph'')
                (spectrumHistory d),
            timeSeriesData =
              pane_after_switch keepMounted (time_series_effect (audioData st)) []
                (visualizationType (app d) = ''timeSeries'') (v = ''timeSeries'')
                (timeSeriesData d)\<rparr>))"

section \<open>Properties of saving\<close>

lemma foldl_add_length:
  "foldl (\<lambda>acc curr. acc + length curr) n rd = n + sum_list (map length rd)"
  by (induction rd arbitrary: n) simp_all

lemma sample_count_sum: "sample_count rd = sum_list (map length rd)"
  by (simp add: sample_count_def foldl_add_length)

lemma sample_count_concat: "sample_count rd = length (concat rd)"
  by (simp add: sample_count_sum length_concat)

lemma forEach_set_concat:
  "length m = offset + sum_list (map length as) \<Longrightarrow>
   forEach_set as offset m = Inr (take offset m @ concat as)"
proof (induction as arbitrary: offset m)
  case Nil
  then show ?case by simp
next
  case (Cons a as)
  let ?m = "take offset m @ a @ drop (offset + length a) m"
  from Cons.prems have fits: "\<not> length m < offset + length a" by simp
  then have step: "typed_set m a offset = Inr ?m"
    by (simp add: typed_set_def)
  from Cons.prems have len: "length ?m = (offset + length a) + sum_list (map length as)"
    by simp
  from Cons.prems have pre: "take (offset + length a) ?m = take offset m @ a"
    by simp
  from Cons.IH [OF len] pre step show ?case by simp
qed

lemma merged_is_concat:
  "forEach_set rd 0 (replicate (sample_count rd) 0) = Inr (concat rd)"
  using forEach_set_concat [of "replicate (sample_count rd) 0" 0 rd]
  by (simp add: sample_count_sum)

lemma save_nonempty:
  "recordedData st \<noteq> [] \<Longrightarrow>
   handleSaveRecording isoNow st =
     Inr (st, [Download (download_name isoNow) (concat (recordedData st)),
               Toast ''Recording Saved'' ''Your data has been saved to a file''])"
  by (simp add: handleSaveRecording_def merged_is_concat)

text \<open>
  C1. For a non-empty recording, saving never throws and emits exactly one file whose
  content is the in-order concatenation of the recorded buffers; the number of samples
  counted before the merge equals the length of the merged array.
\<close>

theorem save_emits_concatenation:
  assumes "recordedData st \<noteq> []"
  shows "handleSaveRecording isoNow st =
           Inr (st, [Download (download_name isoNow) (concat (recordedData st)),
                     Toast ''Recording Saved'' ''Your data has been saved to a file''])
         \<and> length (concat (recordedData st)) = sample_count (recordedData st)
         \<and> sample_count (recordedData st) = sum_list (map length (recordedData st))"
proof -
  from assms have "handleSaveRecording isoNow st =
      Inr (st, [Download (download_name isoNow) (concat (recordedData st)),
                Toast ''Recording Saved'' ''Your data has been saved to a file''])"
    by (simp add: handleSaveRecording_def merged_is_concat)
  moreover have "length (concat (recordedData st)) = sample_count (recordedData st)"
    by (rule sample_count_concat [symmetric])
  moreover have "sample_count (recordedData st) = sum_list (map length (recordedData st))"
    by (rule sample_count_sum)
  ultimately show ?thesis by blast
qed

theorem save_emits_concatenation_witness:
  "recordedData (initial_state\<lparr>recordedData := [[1/2, -1/4], [1/8]]\<rparr>) \<noteq> []
   \<and> handleSaveRecording ''2024-01-02T03:04:05.678Z''
        (initial_state\<lparr>recordedData := [[1/2, -1/4], [1/8]]\<rparr>) =
       Inr (initial_state\<lparr>recordedData := [[1/2, -1/4], [1/8]]\<rparr>,
            [Download ''radio-astronomy-recording-2024-01-02T03-04-05.dat'' [1/2, -1/4, 1/8],
             Toast ''Recording Saved'' ''Your data has been saved to a file''])"
  using save_emits_concatenation
    [of "initial_state\<lparr>recordedData := [[1/2, -1/4], [1/8]]\<rparr>" "''2024-01-02T03:04:05.678Z''"]
  by (simp add: download_name_def timestamp_def)

text \<open>
  C4. With no recorded buffer, saving returns at once: no file is offered, no toast is
  shown, nothing is thrown, and the component state is the same as before.
\<close>

theorem save_empty_is_noop:
  assumes "recordedData st = []"
  shows "handleSaveRecording isoNow st = Inr (st, [])"
  using assms by (simp add: handleSaveRecording_def)

theorem save_empty_is_noop_witness:
  "recordedData initial_state = []
   \<and> handleSaveRecording ''2024-01-02T03:04:05.678Z'' initial_state = Inr (initial_state, [])"
  using save_empty_is_noop [of initial_state "''2024-01-02T03:04:05.678Z''"]
  by (simp add: initial_state_def)

section \<open>Properties of the histories\<close>

lemma length_push_history: "length (push_history b prev) \<le> historyLength"
  by (simp add: push_history_def Let_def)

text \<open>
  C3. Whatever the history was before and whatever the buffer holds, the history that
  \<open>processSpectrum\<close> stores has at most 300 entries, the value of \<open>historyLength\<close>;
  this is the history after the effect of an active spectrograph has run on a buffer.
\<close>

theorem spectrum_history_capped:
  "length (processSpectrum a prev) \<le> 300
   \<and> length (processSpectrum a prev) \<le> historyLength
   \<and> spectrograph_effect (Some a) True prev = processSpectrum a prev
   \<and> length (spectrograph_effect (Some a) True prev) \<le> 300"
  using length_push_history [of "spectrum_of a" prev]
  by (simp add: processSpectrum_def historyLength_def spectrograph_effect_def)

text \<open>
  C9. The effect of an active time-series view appends the mean absolute value of the
  buffer. After a point is appended to the time series, the series has at most 500 points.
  When the appended series would be longer than 500, exactly the last 500 points are
  kept, in order, the new point last; otherwise the new point is simply appended.
\<close>

theorem time_series_capped:
  "time_series_effect (Some a) True prev = append_point (newDataPoint a) prev
   \<and> length (time_series_effect (Some a) True prev) \<le> 500
   \<and> length (append_point p prev) \<le> 500
   \<and> (500 < length prev + 1 \<longrightarrow>
        length (append_point p prev) = 500
        \<and> append_point p prev = drop (length prev + 1 - 500) (prev @ [p])
        \<and> append_point p prev = drop (length prev - 499) prev @ [p]
        \<and> last (append_point p prev) = p)
   \<and> (length prev + 1 \<le> 500 \<longrightarrow> append_point p prev = prev @ [p])"
  by (auto simp: append_point_def time_series_effect_def Let_def)

theorem time_series_capped_witness:
  "500 < length (replicate 500 (Num 0)) + 1
   \<and> length (append_point (Num 1) (replicate 500 (Num 0))) = 500
   \<and> append_point (Num 1) (replicate 500 (Num 0)) = replicate 499 (Num 0) @ [Num 1]
   \<and> length [Num 0] + 1 \<le> (500::nat)
   \<and> append_point (Num 1) [Num 0] = [Num 0, Num 1]"
  using time_series_capped [of "[]" "replicate 500 (Num 0)" "Num 1"]
    time_series_capped [of "[]" "[Num 0]" "Num 1"]
  by simp

section \<open>Properties of the spectrum buffer\<close>

lemma sampleIndex_div: "sampleIndex i a = i * length a div 256"
proof -
  have "real i / 256 * real (length a) = real (i * length a) / real 256" by simp
  then have "\<lfloor>real i / 256 * real (length a)\<rfloor> = int (i * length a div 256)"
    by (simp only: floor_divide_of_nat_eq)
  then show ?thesis by (simp add: sampleIndex_def)
qed

lemma sampleIndex_less: "i < 256 \<Longrightarrow> a \<noteq> [] \<Longrightarrow> sampleIndex i a < length a"
proof -
  assume i: "i < 256" and a: "a \<noteq> []"
  then have "i * length a < 256 * length a" by simp
  then have "i * length a div 256 < length a"
    by (simp add: less_mult_imp_div_less mult.commute)
  then show ?thesis by (simp add: sampleIndex_div)
qed

lemma length_fill_bins: "length (fill_bins a i b) = length b"
proof (induction a i b rule: fill_bins.induct)
  case (1 a i b)
  show ?case
  proof (cases "i < 256")
    case True
    with 1 show ?thesis by (subst fill_bins.simps) simp
  next
    case False
    then show ?thesis by (subst fill_bins.simps) simp
  qed
qed

lemma fill_bins_nth:
  "length b = 256 \<Longrightarrow> j < 256 \<Longrightarrow>
   fill_bins a i b ! j =
     (if i \<le> j \<and> sampleIndex j a < length a
      then to_uint8 (intensity (a ! sampleIndex j a)) else b ! j)"
proof (induction a i b rule: fill_bins.induct)
  case (1 a i b)
  show ?case
  proof (cases "i < 256")
    case True
    let ?b = "if sampleIndex i a < length a
              then b[i := to_uint8 (intensity (a ! sampleIndex i a))] else b"
    have len: "length ?b = 256" using "1.prems" by simp
    have unfold: "fill_bins a i b = fill_bins a (i + 1) ?b"
      using True by (subst fill_bins.simps) simp
    from "1.IH" [OF True len "1.prems"(2)] unfold "1.prems" True show ?thesis
      by (auto simp: nth_list_update)
  next
    case False
    with "1.prems" show ?thesis by (subst fill_bins.simps) simp
  qed
qed

lemma length_spectrum_of: "length (spectrum_of a) = 256"
  by (simp add: spectrum_of_def length_fill_bins)

lemma spectrum_of_nth:
  "j < 256 \<Longrightarrow>
   spectrum_of a ! j =
     (if a = [] then 0 else to_uint8 (intensity (a ! sampleIndex j a)))"
  using sampleIndex_less [of j a]
  by (auto simp: spectrum_of_def fill_bins_nth)

lemma intensity_range: "0 \<le> intensity v \<and> intensity v \<le> 255"
  by (simp add: intensity_def)

lemma unat_to_uint8_intensity: "unat (to_uint8 (intensity v)) = nat \<lfloor>intensity v\<rfloor>"
proof -
  from intensity_range [of v] have f: "0 \<le> \<lfloor>intensity v\<rfloor>" "\<lfloor>intensity v\<rfloor> \<le> 255"
    by (simp_all add: floor_le_iff le_floor_iff)
  then have "\<lfloor>intensity v\<rfloor> < 2 ^ LENGTH(8)" by simp
  with f(1) have "unat (word_of_int \<lfloor>intensity v\<rfloor> :: 8 word) = nat \<lfloor>intensity v\<rfloor>"
    by (simp add: unat_eq_nat_uint unsigned_of_int take_bit_int_eq_self)
  with intensity_range [of v] show ?thesis by (simp add: to_uint8_def)
qed

lemma push_history_take: "push_history b prev = take historyLength (b # prev)"
  by (simp add: push_history_def Let_def)

lemma history_entries:
  "\<forall>e\<in>set h. length e = 256 \<Longrightarrow> \<forall>e\<in>set (fold processSpectrum bufs h). length e = 256"
proof (induction bufs arbitrary: h)
  case Nil
  then show ?case by simp
next
  case (Cons a bufs)
  have "set (processSpectrum a h) \<subseteq> insert (spectrum_of a) (set h)"
    using set_take_subset [of historyLength "spectrum_of a # h"]
    by (simp add: processSpectrum_def push_history_take)
  with Cons.prems have "\<forall>e\<in>set (processSpectrum a h). length e = 256"
    by (auto simp: length_spectrum_of)
  from Cons.IH [OF this] show ?case by simp
qed

text \<open>
  The claim C7 as it is written fails: a bin holds a byte, so a clamped value with a
  fractional part is not what the bin holds. The sample \<open>1/16\<close> gives the clamped
  value \<open>62.5\<close> and the byte \<open>62\<close>.
\<close>

theorem spectrum_bin_not_clamped_value:
  "hd (processSpectrum [1/16] []) ! 0 = 62
   \<and> min 255 (max 0 (\<bar>[1/16] ! nat \<lfloor>real 0 / 256 * real (length [1/16 :: real])\<rfloor>\<bar> * 1000)) = (125/2 :: real)
   \<and> real (unat (hd (processSpectrum [1/16] []) ! 0)) \<noteq>
       min 255 (max 0 (\<bar>[1/16] ! nat \<lfloor>real 0 / 256 * real (length [1/16 :: real])\<rfloor>\<bar> * 1000))"
proof -
  have h: "hd (processSpectrum [1/16] []) = spectrum_of [1/16]"
    by (simp add: processSpectrum_def push_history_def historyLength_def)
  have "spectrum_of [1/16] ! 0 = to_uint8 (intensity ([1/16] ! sampleIndex 0 [1/16]))"
    by (simp add: spectrum_of_nth)
  also have "\<dots> = 62"
    by (simp add: sampleIndex_def intensity_def to_uint8_def)
  finally show ?thesis by (simp add: h)
qed

text \<open>
  C7, amended. \<open>processSpectrum\<close> puts the new buffer at the front and keeps the
  previous entries behind it, unchanged and in order, the oldest being dropped once 300
  entries are reached. The new buffer has 256 bytes. For a non-empty sample buffer the
  byte at bin \<open>i\<close> is the integer part of the clamped value
  \<open>min(255, max(0, |audioData[floor(i / 256 * length)]| * 1000))\<close>, and the sample index
  is in range; for an empty sample buffer every bin is 0. Every entry of a history
  built from the empty history has 256 bytes, each at most 255.
\<close>

theorem spectrum_entry_and_order:
  "processSpectrum a prev = take 300 (spectrum_of a # prev)
   \<and> hd (processSpectrum a prev) = spectrum_of a
   \<and> tl (processSpectrum a prev) = take 299 prev
   \<and> (length prev < 300 \<longrightarrow> processSpectrum a prev = spectrum_of a # prev)
   \<and> length (spectrum_of a) = 256
   \<and> (\<forall>i<256.
         unat (spectrum_of a ! i) \<le> 255
         \<and> (a = [] \<longrightarrow> spectrum_of a ! i = 0)
         \<and> (a \<noteq> [] \<longrightarrow>
              nat \<lfloor>real i / 256 * real (length a)\<rfloor> < length a
              \<and> unat (spectrum_of a ! i) =
                  nat \<lfloor>min 255 (max 0
                        (\<bar>a ! nat \<lfloor>real i / 256 * real (length a)\<rfloor>\<bar> * 1000))\<rfloor>))
   \<and> (\<forall>e\<in>set (history_after bufs). length e = 256 \<and> (\<forall>i<256. unat (e ! i) \<le> 255))"
proof -
  have ps: "processSpectrum a prev = take 300 (spectrum_of a # prev)"
    by (simp add: processSpectrum_def push_history_take historyLength_def)
  have hd: "hd (processSpectrum a prev) = spectrum_of a"
    by (simp add: ps)
  have tl: "tl (processSpectrum a prev) = take 299 prev"
    by (simp add: ps take_Cons')
  have short: "processSpectrum a prev = spectrum_of a # prev" if "length prev < 300"
    using that by (simp add: ps take_Cons')
  have byte: "unat w \<le> 255" for w :: "8 word"
  proof -
    have "unat w < 2 ^ LENGTH(8)" by (rule unsigned_less)
    then show ?thesis by simp
  qed
  have bins: "unat (spectrum_of a ! i) \<le> 255
         \<and> (a = [] \<longrightarrow> spectrum_of a ! i = 0)
         \<and> (a \<noteq> [] \<longrightarrow>
              nat \<lfloor>real i / 256 * real (length a)\<rfloor> < length a
              \<and> unat (spectrum_of a ! i) =
                  nat \<lfloor>min 255 (max 0
                        (\<bar>a ! nat \<lfloor>real i / 256 * real (length a)\<rfloor>\<bar> * 1000))\<rfloor>)"
    if "i < 256" for i
  proof (intro conjI impI)
    show "unat (spectrum_of a ! i) \<le> 255" by (rule byte)
    show "spectrum_of a ! i = 0" if "a = []"
      using \<open>i < 256\<close> that by (simp add: spectrum_of_nth)
    show "nat \<lfloor>real i / 256 * real (length a)\<rfloor> < length a" if "a \<noteq> []"
      using sampleIndex_less [OF \<open>i < 256\<close> that] by (simp add: sampleIndex_def)
    show "unat (spectrum_of a ! i) =
            nat \<lfloor>min 255 (max 0
                  (\<bar>a ! nat \<lfloor>real i / 256 * real (length a)\<rfloor>\<bar> * 1000))\<rfloor>"
      if "a \<noteq> []"
    proof -
      from \<open>i < 256\<close> that
      have "spectrum_of a ! i = to_uint8 (intensity (a ! sampleIndex i a))"
        by (simp add: spectrum_of_nth)
      then have "unat (spectrum_of a ! i) = nat \<lfloor>intensity (a ! sampleIndex i a)\<rfloor>"
        by (simp only: unat_to_uint8_intensity)
      then show ?thesis by (simp only: intensity_def sampleIndex_def)
    qed
  qed
  have inv: "\<forall>e\<in>set (history_after bufs). length e = 256 \<and> (\<forall>i<256. unat (e ! i) \<le> 255)"
    using history_entries [of "[]" bufs] byte by (simp add: history_after_def)
  from ps hd tl short length_spectrum_of [of a] bins inv show ?thesis by blast
qed

theorem spectrum_entry_and_order_witness:
  "(128::nat) < 256 \<and> [1/16, 1::real] \<noteq> []
   \<and> length [replicate 256 (0::8 word)] < 300
   \<and> processSpectrum [1/16, 1] [replicate 256 0] = [spectrum_of [1/16, 1], replicate 256 0]
   \<and> unat (spectrum_of [1/16, 1] ! 128) = 255
   \<and> spectrum_of [1/16] \<in> set (history_after [[1/16]])
   \<and> length (spectrum_of [1/16]) = 256"
proof -
  note t = spectrum_entry_and_order [of "[1/16, 1]" "[replicate 256 0]" "[[1/16]]"]
  from t have ps: "processSpectrum [1/16, 1] [replicate 256 0] =
                     [spectrum_of [1/16, 1], replicate 256 0]"
    by simp
  from t have "(128::nat) < 256 \<longrightarrow> ([1/16, 1::real] \<noteq> [] \<longrightarrow>
      unat (spectrum_of [1/16, 1] ! 128) =
        nat \<lfloor>min 255 (max 0
              (\<bar>[1/16, 1::real] ! nat \<lfloor>real 128 / 256 * real (length [1/16, 1::real])\<rfloor>\<bar> * 1000))\<rfloor>)"
    by blast
  then have bin: "unat (spectrum_of [1/16, 1] ! 128) = 255" by simp
  have mem: "spectrum_of [1/16] \<in> set (history_after [[1/16]])"
    by (simp add: history_after_def processSpectrum_def push_history_def historyLength_def)
  with t have len: "length (spectrum_of [1/16]) = 256" by blast
  from ps bin mem len show ?thesis by simp
qed

section \<open>Properties of rounding\<close>

text \<open>
  The equations that evaluate a rounding of a numeral. They unfold the recursion of
  \<open>float_exponent\<close>, so they are for closed terms only.
\<close>

lemmas float_eval =
  to_float32_def to_float64_def to_float_def float_exponent.simps round_half_even_def Let_def

lemma float_exponent_bounds:
  "0 < x \<Longrightarrow> 2 powi float_exponent x \<le> x \<and> x < 2 powi (float_exponent x + 1)"
proof (induction x rule: float_exponent.induct)
  case (1 x)
  show ?case
  proof (cases "2 \<le> x")
    case True
    then have e: "float_exponent x = float_exponent (x / 2) + 1"
      by (subst float_exponent.simps) simp
    from True "1.prems" have "0 < x / 2" by simp
    from "1.IH"(1) [OF True this]
    have "2 powi float_exponent (x / 2) \<le> x / 2"
      and "x / 2 < 2 powi (float_exponent (x / 2) + 1)" by simp_all
    then show ?thesis by (simp add: e power_int_add)
  next
    case False
    show ?thesis
    proof (cases "x < 1")
      case True
      with False "1.prems" have e: "float_exponent x = float_exponent (x * 2) - 1"
        by (subst float_exponent.simps) simp
      from "1.prems" True have c: "0 < x \<and> x < 1" by simp
      from "1.prems" have "0 < x * 2" by simp
      from "1.IH"(2) [OF False c this]
      have a: "2 powi float_exponent (x * 2) \<le> x * 2"
        and b: "x * 2 < 2 powi (float_exponent (x * 2) + 1)" by simp_all
      have "2 powi (float_exponent (x * 2) - 1) = 2 powi float_exponent (x * 2) / (2::real)"
        by (simp add: power_int_diff)
      with a b show ?thesis by (simp add: e power_int_add)
    next
      case ge: False
      with False have e: "float_exponent x = 0"
        by (subst float_exponent.simps) simp
      from ge False show ?thesis by (simp add: e)
    qed
  qed
qed

lemma float_exponent_mono:
  assumes "0 < x" and "x \<le> y"
  shows "float_exponent x \<le> float_exponent y"
proof -
  from assms have y: "0 < y" by simp
  from float_exponent_bounds [OF assms(1)] float_exponent_bounds [OF y] assms(2)
  have "(2::real) powi float_exponent x < 2 powi (float_exponent y + 1)" by linarith
  then have "float_exponent x < float_exponent y + 1"
    by (metis power_int_increasing not_less one_le_numeral)
  then show ?thesis by simp
qed

lemma round_half_even_le: "t \<le> of_int N \<Longrightarrow> round_half_even t \<le> N"
proof -
  assume t: "t \<le> of_int N"
  show ?thesis
  proof (cases "t = of_int N")
    case True
    then show ?thesis by (simp add: round_half_even_def)
  next
    case False
    with t have "t < of_int N" by simp
    then have "\<lfloor>t\<rfloor> < N" by (simp add: floor_less_iff)
    then show ?thesis by (simp add: round_half_even_def Let_def)
  qed
qed

lemma round_half_even_ge: "of_int N \<le> t \<Longrightarrow> N \<le> round_half_even t"
proof -
  assume "of_int N \<le> t"
  then have "N \<le> \<lfloor>t\<rfloor>" by (simp add: le_floor_iff)
  then show ?thesis by (simp add: round_half_even_def Let_def)
qed

lemma to_float_zero: "to_float p emin 0 = 0"
  by (simp add: to_float_def Let_def round_half_even_def)

text \<open>
  Rounding never crosses a number of the format: a number that the rounding leaves
  fixed bounds the rounding of everything it bounds.
\<close>

lemma to_float_bound:
  assumes fixed: "to_float p emin B = B" and y: "\<bar>y\<bar> \<le> B"
  shows "\<bar>to_float p emin y\<bar> \<le> B"
proof (cases "y = 0")
  case True
  with y show ?thesis by (simp add: to_float_zero)
next
  case False
  define ey where "ey = max emin (float_exponent \<bar>y\<bar>)"
  define eB where "eB = max emin (float_exponent \<bar>B\<bar>)"
  define qy :: real where "qy = 2 powi (ey - (int p - 1))"
  define qB :: real where "qB = 2 powi (eB - (int p - 1))"
  define M where "M = round_half_even (B / qB)"
  from False y have pos: "0 < \<bar>y\<bar>" and yB: "\<bar>y\<bar> \<le> \<bar>B\<bar>" by simp_all
  from float_exponent_mono [OF pos yB] have le: "ey \<le> eB"
    by (simp add: ey_def eB_def)
  have qy_pos: "0 < qy" by (simp add: qy_def)
  have "eB - (int p - 1) = (ey - (int p - 1)) + (eB - ey)" by simp
  then have "qB = qy * 2 powi (eB - ey)"
    unfolding qB_def qy_def by (simp only: power_int_add [of "2::real", simplified])
  also from le have "2 powi (eB - ey) = (2::real) ^ nat (eB - ey)"
    by (simp add: power_int_def)
  finally have qB: "qB = qy * 2 ^ nat (eB - ey)" .
  from fixed have B: "B = of_int M * qB"
    by (simp add: to_float_def Let_def M_def qB_def eB_def)
  define N where "N = M * 2 ^ nat (eB - ey)"
  from B qB have BN: "B = of_int N * qy" by (simp add: N_def)
  with qy_pos have "B / qy = of_int N" by simp
  moreover from y have "y \<le> B" and "- B \<le> y" by simp_all
  with qy_pos have "y / qy \<le> B / qy" and "- (B / qy) \<le> y / qy"
    using divide_right_mono [of y B qy] divide_right_mono [of "- B" y qy] by simp_all
  ultimately have up: "y / qy \<le> of_int N" and lo: "of_int (- N) \<le> y / qy" by simp_all
  from round_half_even_le [OF up] round_half_even_ge [OF lo]
  have "\<bar>round_half_even (y / qy)\<bar> \<le> N" by simp
  then have "\<bar>of_int (round_half_even (y / qy)) :: real\<bar> \<le> of_int N"
    by (metis of_int_abs of_int_le_iff)
  with qy_pos have "\<bar>of_int (round_half_even (y / qy)) * qy\<bar> \<le> of_int N * qy"
    by (simp add: abs_mult mult_right_mono)
  with BN show ?thesis by (simp add: to_float_def Let_def qy_def ey_def)
qed

lemma stored_bound:
  assumes "to_float32 B = B" and "to_float64 B = B" and "\<bar>y\<bar> \<le> B"
  shows "\<bar>to_float32 (to_float64 y)\<bar> \<le> B"
proof -
  from assms(2,3) have "\<bar>to_float64 y\<bar> \<le> B"
    unfolding to_float64_def by (rule to_float_bound)
  with assms(1) show ?thesis
    unfolding to_float32_def by (rule to_float_bound)
qed

lemma float32_one: "to_float32 1 = 1 \<and> to_float64 1 = 1"
  by (simp add: float_eval)

lemma float32_max_fixed:
  "to_float32 float32_max = float32_max \<and> to_float64 float32_max = float32_max"
  by (simp add: float_eval float32_max_def)

section \<open>Properties of capturing\<close>

lemma closure_of_state:
  "audio_effect_closure st = Some cl \<Longrightarrow>
   cl_isRecording cl \<and> cl_analyser cl \<noteq> None \<and> cl_gain cl = gain st"
  by (auto simp: audio_effect_closure_def split: if_splits)

lemma updateData_running:
  "cl_isRecording cl \<Longrightarrow> cl_analyser cl \<noteq> None \<Longrightarrow>
   updateData cl dataArray st =
     (st\<lparr>audioData := Some (tick_buffer (cl, dataArray)),
         recordedData := recordedData st @ [tick_buffer (cl, dataArray)]\<rparr>,
      True)"
  by (simp add: updateData_def Let_def tick_buffer_def)

lemma updateData_recorded:
  "recordedData (fst (updateData cl dataArray st)) =
     recordedData st @ (if tick_runs (cl, dataArray) then [tick_buffer (cl, dataArray)] else [])"
  by (simp add: updateData_def Let_def tick_runs_def tick_buffer_def)

lemma run_ticks_recorded:
  "recordedData (run_ticks ticks st) = recordedData st @ map tick_buffer (filter tick_runs ticks)"
proof (induction ticks arbitrary: st)
  case Nil
  then show ?case by (simp add: run_ticks_def)
next
  case (Cons t ticks)
  obtain cl d where t: "t = (cl, d)" by (cases t)
  have "run_ticks (t # ticks) st = run_ticks ticks (fst (updateData cl d st))"
    by (simp add: run_ticks_def t)
  with Cons.IH [of "fst (updateData cl d st)"] show ?case
    by (simp add: updateData_recorded t)
qed

lemma tick_buffer_bound:
  assumes unit: "in_unit_range dataArray"
    and B: "to_float32 B = B" "to_float64 B = B" and g: "\<bar>cl_gain cl\<bar> \<le> B"
    and v: "v \<in> set (tick_buffer (cl, dataArray))"
  shows "\<bar>v\<bar> \<le> B"
proof -
  from v obtain x where x: "x \<in> set dataArray"
    and vx: "v = to_float32 (to_float64 (x * cl_gain cl))"
    by (auto simp: tick_buffer_def)
  from x unit have "\<bar>x\<bar> \<le> 1" by (auto simp: in_unit_range_def list_all_iff)
  then have "\<bar>x\<bar> * \<bar>cl_gain cl\<bar> \<le> 1 * \<bar>cl_gain cl\<bar>"
    by (intro mult_right_mono) simp_all
  with g have "\<bar>x * cl_gain cl\<bar> \<le> B" by (simp add: abs_mult)
  from stored_bound [OF B this] show ?thesis by (simp add: vx)
qed

text \<open>
  The claim C5 as it is written fails. The stored element is the product rounded to
  single precision: the sample \<open>16777215/16777216\<close> at gain \<open>1.5\<close> has the product
  \<open>50331645/33554432\<close> and is stored as \<open>12582911/8388608\<close>. And a tick is scaled by
  the gain its closure was created with: the effect's cleanup is empty, so a loop
  started at gain 10 still runs when the gain is 1/2, and turns the sample \<open>1/2\<close> into
  \<open>5\<close>, not \<open>1/4\<close>.
\<close>

theorem tick_product_is_rounded:
  "audio_effect_closure
     (initial_state\<lparr>isRecording := True, analyser := Some \<lparr>fftSize = 2048\<rparr>, gain := 3/2\<rparr>) =
     Some \<lparr>cl_isRecording = True, cl_analyser = Some \<lparr>fftSize = 2048\<rparr>, cl_gain = 3/2\<rparr>
   \<and> audioData (fst (updateData
        \<lparr>cl_isRecording = True, cl_analyser = Some \<lparr>fftSize = 2048\<rparr>, cl_gain = 3/2\<rparr>
        [16777215/16777216]
        (initial_state\<lparr>isRecording := True, analyser := Some \<lparr>fftSize = 2048\<rparr>, gain := 3/2\<rparr>)))
       = Some [12582911/8388608]
   \<and> [16777215/16777216] ! 0 *
       gain (initial_state\<lparr>isRecording := True, analyser := Some \<lparr>fftSize = 2048\<rparr>, gain := 3/2\<rparr>)
       = (50331645/33554432 :: real)
   \<and> (12582911/8388608 :: real) \<noteq> 50331645/33554432
   \<and> audio_effect_closure
       (initial_state\<lparr>isRecording := True, analyser := Some \<lparr>fftSize = 2048\<rparr>, gain := 10\<rparr>) =
       Some \<lparr>cl_isRecording = True, cl_analyser = Some \<lparr>fftSize = 2048\<rparr>, cl_gain = 10\<rparr>
   \<and> audioData (fst (updateData
        \<lparr>cl_isRecording = True, cl_analyser = Some \<lparr>fftSize = 2048\<rparr>, cl_gain = 10\<rparr>
        [1/2]
        (initial_state\<lparr>isRecording := True, analyser := Some \<lparr>fftSize = 2048\<rparr>, gain := 1/2\<rparr>)))
       = Some [5]
   \<and> [1/2] ! 0 *
       gain (initial_state\<lparr>isRecording := True, analyser := Some \<lparr>fftSize = 2048\<rparr>, gain := 1/2\<rparr>)
       = (1/4 :: real)"
proof -
  have e: "to_float64 (50331645/33554432) = 50331645/33554432"
    "to_float32 (50331645/33554432) = 12582911/8388608"
    "to_float32 (to_float64 5) = 5"
    by (simp_all add: float_eval)
  show ?thesis
    by (simp add: audio_effect_closure_def updateData_def initial_state_def Let_def e)
qed

text \<open>
  C5, amended. A tick run by the closure that the effect created for the gain that
  is still the current one publishes, and appends to the recording, the buffer read
  from the analyser with every element multiplied by the gain and rounded to single
  precision (the product being rounded to a double first), for products within the
  finite single-precision range, which the stored values then keep to. The buffer has
  the length of the raw buffer, and the tick schedules the next one. Ticks of loops
  started under an earlier gain are left out of this statement.
\<close>

theorem tick_scales_by_gain:
  assumes "audio_effect_closure st = Some cl"
    and "gain st' = gain st"
    and "\<forall>v\<in>set dataArray. \<bar>v * gain st'\<bar> \<le> float32_max"
  shows "updateData cl dataArray st' =
           (st'\<lparr>audioData :=
                  Some (map (\<lambda>value. to_float32 (to_float64 (value * gain st'))) dataArray),
                recordedData := recordedData st' @
                  [map (\<lambda>value. to_float32 (to_float64 (value * gain st'))) dataArray]\<rparr>,
            True)
         \<and> length (map (\<lambda>value. to_float32 (to_float64 (value * gain st'))) dataArray) =
             length dataArray
         \<and> (\<forall>i<length dataArray.
               map (\<lambda>value. to_float32 (to_float64 (value * gain st'))) dataArray ! i =
                 to_float32 (to_float64 (dataArray ! i * gain st'))
               \<and> \<bar>to_float32 (to_float64 (dataArray ! i * gain st'))\<bar> \<le> float32_max)"
proof -
  from closure_of_state [OF assms(1)] assms(2)
  have run: "cl_isRecording cl" "cl_analyser cl \<noteq> None" and g: "cl_gain cl = gain st'"
    by simp_all
  have tick: "updateData cl dataArray st' =
           (st'\<lparr>audioData :=
                  Some (map (\<lambda>value. to_float32 (to_float64 (value * gain st'))) dataArray),
                recordedData := recordedData st' @
                  [map (\<lambda>value. to_float32 (to_float64 (value * gain st'))) dataArray]\<rparr>,
            True)"
    using updateData_running [OF run, of dataArray st'] by (simp add: tick_buffer_def g)
  have finite: "\<bar>to_float32 (to_float64 (dataArray ! i * gain st'))\<bar> \<le> float32_max"
    if "i < length dataArray" for i
  proof -
    from that assms(3) have "\<bar>dataArray ! i * gain st'\<bar> \<le> float32_max" by simp
    with float32_max_fixed show ?thesis by (intro stored_bound) simp_all
  qed
  from tick finite show ?thesis by simp
qed

theorem tick_scales_by_gain_witness:
  "audio_effect_closure
     (initial_state\<lparr>isRecording := True, analyser := Some \<lparr>fftSize = 2048\<rparr>, gain := 2\<rparr>) =
     Some \<lparr>cl_isRecording = True, cl_analyser = Some \<lparr>fftSize = 2048\<rparr>, cl_gain = 2\<rparr>
   \<and> gain (initial_state\<lparr>isRecording := True, analyser := Some \<lparr>fftSize = 2048\<rparr>, gain := 2,
                           audioData := Some [1], recordedData := [[1]]\<rparr>) =
       gain (initial_state\<lparr>isRecording := True, analyser := Some \<lparr>fftSize = 2048\<rparr>, gain := 2\<rparr>)
   \<and> \<bar>1/4 * 2 :: real\<bar> \<le> float32_max \<and> \<bar>- 1/2 * 2 :: real\<bar> \<le> float32_max
   \<and> updateData \<lparr>cl_isRecording = True, cl_analyser = Some \<lparr>fftSize = 2048\<rparr>, cl_gain = 2\<rparr>
        [1/4, -1/2]
        (initial_state\<lparr>isRecording := True, analyser := Some \<lparr>fftSize = 2048\<rparr>, gain := 2,
                       audioData := Some [1], recordedData := [[1]]\<rparr>) =
       (initial_state\<lparr>isRecording := True, analyser := Some \<lparr>fftSize = 2048\<rparr>, gain := 2,
                      audioData := Some [1/2, -1], recordedData := [[1], [1/2, -1]]\<rparr>, True)"
proof -
  let ?st = "initial_state\<lparr>isRecording := True, analyser := Some \<lparr>fftSize = 2048\<rparr>, gain := 2\<rparr>"
  let ?st' = "initial_state\<lparr>isRecording := True, analyser := Some \<lparr>fftSize = 2048\<rparr>, gain := 2,
                           audioData := Some [1], recordedData := [[1]]\<rparr>"
  let ?cl = "\<lparr>cl_isRecording = True, cl_analyser = Some \<lparr>fftSize = 2048\<rparr>, cl_gain = 2\<rparr>"
  have c: "audio_effect_closure ?st = Some ?cl"
    by (simp add: audio_effect_closure_def initial_state_def)
  have g: "gain ?st' = gain ?st" by simp
  have r: "\<forall>v\<in>set [1/4, -1/2 :: real]. \<bar>v * gain ?st'\<bar> \<le> float32_max"
    by (simp add: float32_max_def)
  have e: "to_float32 (to_float64 (1/2)) = 1/2" "to_float32 (to_float64 (- 1)) = - 1"
    by (simp_all add: float_eval)
  from tick_scales_by_gain [OF c g r] c e show ?thesis
    by (simp add: initial_state_def float32_max_def)
qed

text \<open>
  The claim C2 as it is written fails: with the gain at 10, the raw sample \<open>1/2\<close>,
  which is in the unit range, is published and recorded as \<open>5\<close>.
\<close>

theorem tick_exceeds_unit_range:
  "in_unit_range [1/2]
   \<and> audio_effect_closure
       (initial_state\<lparr>isRecording := True, analyser := Some \<lparr>fftSize = 2048\<rparr>, gain := 10\<rparr>) =
       Some \<lparr>cl_isRecording = True, cl_analyser = Some \<lparr>fftSize = 2048\<rparr>, cl_gain = 10\<rparr>
   \<and> audioData (fst (updateData
        \<lparr>cl_isRecording = True, cl_analyser = Some \<lparr>fftSize = 2048\<rparr>, cl_gain = 10\<rparr> [1/2]
        (initial_state\<lparr>isRecording := True, analyser := Some \<lparr>fftSize = 2048\<rparr>, gain := 10\<rparr>)))
       = Some [5]
   \<and> recordedData (fst (updateData
        \<lparr>cl_isRecording = True, cl_analyser = Some \<lparr>fftSize = 2048\<rparr>, cl_gain = 10\<rparr> [1/2]
        (initial_state\<lparr>isRecording := True, analyser := Some \<lparr>fftSize = 2048\<rparr>, gain := 10\<rparr>)))
       = [[5]]
   \<and> \<not> in_unit_range [5]"
proof -
  have e: "to_float32 (to_float64 5) = 5" by (simp add: float_eval)
  show ?thesis
    by (simp add: in_unit_range_def audio_effect_closure_def updateData_def initial_state_def
        Let_def e)
qed

text \<open>
  C2, amended. When the raw samples are in \<open>[-1, 1]\<close>, the buffer that a tick
  publishes and records is in \<open>[-1, 1]\<close> whenever the gain of the closure that runs
  the tick is at most 1 in absolute value; and every finite single-precision number
  \<open>B\<close> that bounds this gain in absolute value (10 over the range of the slider)
  bounds every value of the buffer.
\<close>

theorem tick_range_bounded:
  assumes "cl_isRecording cl" and "cl_analyser cl \<noteq> None" and "in_unit_range dataArray"
  shows "audioData (fst (updateData cl dataArray st)) = Some (tick_buffer (cl, dataArray))
         \<and> recordedData (fst (updateData cl dataArray st)) =
             recordedData st @ [tick_buffer (cl, dataArray)]
         \<and> tick_buffer (cl, dataArray) =
             map (\<lambda>value. to_float32 (to_float64 (value * cl_gain cl))) dataArray
         \<and> (\<bar>cl_gain cl\<bar> \<le> 1 \<longrightarrow> in_unit_range (tick_buffer (cl, dataArray)))
         \<and> (to_float32 B = B \<and> to_float64 B = B \<and> B \<le> float32_max \<and> \<bar>cl_gain cl\<bar> \<le> B \<longrightarrow>
              (\<forall>v\<in>set (tick_buffer (cl, dataArray)). \<bar>v\<bar> \<le> B))"
proof -
  have unit: "in_unit_range (tick_buffer (cl, dataArray))" if "\<bar>cl_gain cl\<bar> \<le> 1"
    unfolding in_unit_range_def list_all_iff
  proof
    fix v assume "v \<in> set (tick_buffer (cl, dataArray))"
    with float32_one that assms(3) have "\<bar>v\<bar> \<le> 1"
      by (intro tick_buffer_bound [of dataArray 1 cl v]) simp_all
    then show "- 1 \<le> v \<and> v \<le> 1" by linarith
  qed
  have bound: "\<forall>v\<in>set (tick_buffer (cl, dataArray)). \<bar>v\<bar> \<le> B"
    if "to_float32 B = B \<and> to_float64 B = B \<and> B \<le> float32_max \<and> \<bar>cl_gain cl\<bar> \<le> B"
    using that assms(3) by (auto intro: tick_buffer_bound)
  from updateData_running [OF assms(1,2), of dataArray st] unit bound show ?thesis
    by (simp add: tick_buffer_def)
qed

theorem tick_range_bounded_witness:
  "cl_isRecording \<lparr>cl_isRecording = True, cl_analyser = Some \<lparr>fftSize = 2048\<rparr>, cl_gain = 1/2\<rparr>
   \<and> cl_analyser \<lparr>cl_isRecording = True, cl_analyser = Some \<lparr>fftSize = 2048\<rparr>, cl_gain = 1/2\<rparr>
       \<noteq> None
   \<and> in_unit_range [1, -1/2]
   \<and> \<bar>cl_gain \<lparr>cl_isRecording = True, cl_analyser = Some \<lparr>fftSize = 2048\<rparr>, cl_gain = 1/2\<rparr>\<bar> \<le> 1
   \<and> to_float32 10 = 10 \<and> to_float64 10 = 10 \<and> 10 \<le> float32_max
   \<and> \<bar>cl_gain \<lparr>cl_isRecording = True, cl_analyser = Some \<lparr>fftSize = 2048\<rparr>, cl_gain = 1/2\<rparr>\<bar> \<le> 10
   \<and> audioData (fst (updateData
        \<lparr>cl_isRecording = True, cl_analyser = Some \<lparr>fftSize = 2048\<rparr>, cl_gain = 1/2\<rparr>
        [1, -1/2] initial_state)) = Some [1/2, -1/4]
   \<and> in_unit_range [1/2, -1/4]
   \<and> \<bar>1/2 :: real\<bar> \<le> 10 \<and> \<bar>- 1/4 :: real\<bar> \<le> 10"
proof -
  let ?cl = "\<lparr>cl_isRecording = True, cl_analyser = Some \<lparr>fftSize = 2048\<rparr>, cl_gain = 1/2\<rparr>"
  have a: "cl_isRecording ?cl" "cl_analyser ?cl \<noteq> None" by simp_all
  have r: "in_unit_range [1, -1/2]" by (simp add: in_unit_range_def)
  have g: "\<bar>cl_gain ?cl\<bar> \<le> 1" by simp
  have B: "to_float32 10 = 10" "to_float64 10 = 10" "10 \<le> float32_max"
    by (simp_all add: float_eval float32_max_def)
  have e: "to_float32 (to_float64 (1/2)) = 1/2"
    "to_float32 (to_float64 (- (1/4))) = - (1/4)"
    by (simp_all add: float_eval)
  have b: "tick_buffer (?cl, [1, -1/2]) = [1/2, -1/4]"
    by (simp add: tick_buffer_def e)
  from tick_range_bounded [OF a r, of initial_state 10] a r g B show ?thesis
    unfolding b by simp
qed

text \<open>
  C10. Starting a recording empties the recorded data whatever it held. After any
  sequence of ticks that follows, the recording consists of the buffers of the ticks
  that ran, in order, and saving then offers exactly their concatenation (or nothing
  when no tick ran): nothing recorded before the start is part of it.
\<close>

theorem start_discards_previous:
  "recordedData (fst (handleStartRecording st)) = []
   \<and> recordedData (run_ticks ticks (fst (handleStartRecording st))) =
       map tick_buffer (filter tick_runs ticks)
   \<and> (filter tick_runs ticks \<noteq> [] \<longrightarrow>
        handleSaveRecording isoNow (run_ticks ticks (fst (handleStartRecording st))) =
          Inr (run_ticks ticks (fst (handleStartRecording st)),
               [Download (download_name isoNow)
                  (concat (map tick_buffer (filter tick_runs ticks))),
                Toast ''Recording Saved'' ''Your data has been saved to a file'']))
   \<and> (filter tick_runs ticks = [] \<longrightarrow>
        handleSaveRecording isoNow (run_ticks ticks (fst (handleStartRecording st))) =
          Inr (run_ticks ticks (fst (handleStartRecording st)), []))"
proof -
  let ?s = "run_ticks ticks (fst (handleStartRecording st))"
  have reset: "recordedData (fst (handleStartRecording st)) = []"
    by (simp add: handleStartRecording_def)
  have rec: "recordedData ?s = map tick_buffer (filter tick_runs ticks)"
    by (simp add: run_ticks_recorded reset)
  have some: "handleSaveRecording isoNow ?s =
      Inr (?s, [Download (download_name isoNow)
                  (concat (map tick_buffer (filter tick_runs ticks))),
                Toast ''Recording Saved'' ''Your data has been saved to a file''])"
    if "filter tick_runs ticks \<noteq> []"
    using save_nonempty [of ?s isoNow] that by (simp add: rec)
  have none: "handleSaveRecording isoNow ?s = Inr (?s, [])"
    if "filter tick_runs ticks = []"
    using that by (simp add: handleSaveRecording_def rec)
  from reset rec some none show ?thesis by blast
qed

theorem start_discards_previous_witness:
  "filter tick_runs
     [(\<lparr>cl_isRecording = True, cl_analyser = Some \<lparr>fftSize = 2048\<rparr>, cl_gain = 2\<rparr>, [1/4]),
      (\<lparr>cl_isRecording = True, cl_analyser = Some \<lparr>fftSize = 2048\<rparr>, cl_gain = 2\<rparr>, [1/8])]
     \<noteq> []
   \<and> recordedData (run_ticks
         [(\<lparr>cl_isRecording = True, cl_analyser = Some \<lparr>fftSize = 2048\<rparr>, cl_gain = 2\<rparr>, [1/4]),
          (\<lparr>cl_isRecording = True, cl_analyser = Some \<lparr>fftSize = 2048\<rparr>, cl_gain = 2\<rparr>, [1/8])]
         (fst (handleStartRecording (initial_state\<lparr>recordedData := [[1, 1, 1]]\<rparr>)))) =
       [[1/2], [1/4]]
   \<and> handleSaveRecording ''2024-01-02T03:04:05.678Z''
        (run_ticks
          [(\<lparr>cl_isRecording = True, cl_analyser = Some \<lparr>fftSize = 2048\<rparr>, cl_gain = 2\<rparr>, [1/4]),
           (\<lparr>cl_isRecording = True, cl_analyser = Some \<lparr>fftSize = 2048\<rparr>, cl_gain = 2\<rparr>, [1/8])]
          (fst (handleStartRecording (initial_state\<lparr>recordedData := [[1, 1, 1]]\<rparr>)))) =
       Inr (initial_state\<lparr>isRecording := True, audioData := Some [1/4],
                          recordedData := [[1/2], [1/4]]\<rparr>,
            [Download ''radio-astronomy-recording-2024-01-02T03-04-05.dat'' [1/2, 1/4],
             Toast ''Recording Saved'' ''Your data has been saved to a file''])"
proof -
  let ?cl = "\<lparr>cl_isRecording = True, cl_analyser = Some \<lparr>fftSize = 2048\<rparr>, cl_gain = 2\<rparr>"
  let ?ticks = "[(?cl, [1/4]), (?cl, [1/8::real])]"
  let ?st = "initial_state\<lparr>recordedData := [[1, 1, 1]]\<rparr>"
  have e: "to_float32 (to_float64 (1/2)) = 1/2" "to_float32 (to_float64 (1/4)) = 1/4"
    by (simp_all add: float_eval)
  have f: "filter tick_runs ?ticks = ?ticks" by (simp add: tick_runs_def)
  have b: "map tick_buffer ?ticks = [[1/2], [1/4]]" by (simp add: tick_buffer_def e)
  have n: "download_name ''2024-01-02T03:04:05.678Z'' =
           ''radio-astronomy-recording-2024-01-02T03-04-05.dat''"
    by (simp add: download_name_def timestamp_def)
  have r: "run_ticks ?ticks (fst (handleStartRecording ?st)) =
           initial_state\<lparr>isRecording := True, audioData := Some [1/4],
                          recordedData := [[1/2], [1/4]]\<rparr>"
    by (simp add: run_ticks_def updateData_def handleStartRecording_def initial_state_def
        Let_def e)
  from start_discards_previous [of ?st ?ticks "''2024-01-02T03:04:05.678Z''"]
  show ?thesis unfolding f b n r by simp
qed

section \<open>Properties of opening the input stream\<close>

text \<open>
  The claim C6 as it is written fails. The handler is chained on the promise that
  \<open>then\<close> returns, so it also handles a failure that is not a failure to acquire the
  stream: the stream is acquired, building the analyser graph throws, and the error
  is logged and the recording reset. And the effect asks for the stream only while no
  audio context exists: with a context left by an earlier start, nothing is asked,
  nothing is logged and \<open>isRecording\<close> stays true, whatever the device would answer.
\<close>

theorem graph_failure_also_handled:
  "setup_audio_effect (GraphThrows ''InvalidStateError'') (initial_state\<lparr>isRecording := True\<rparr>) =
     Inr (initial_state\<lparr>audioContext := Some AudioContext\<rparr>,
          [ConsoleError ''Error accessing audio device:'' ''InvalidStateError''])
   \<and> isRecording (initial_state\<lparr>isRecording := True, audioContext := Some AudioContext\<rparr>)
   \<and> setup_audio_effect (StreamRejected ''NotAllowedError'')
        (initial_state\<lparr>isRecording := True, audioContext := Some AudioContext\<rparr>) =
       Inr (initial_state\<lparr>isRecording := True, audioContext := Some AudioContext\<rparr>, [])"
  by (simp add: setup_audio_effect_def catch_handler_def initial_state_def)

text \<open>
  C6, amended. Whenever the handler runs, it logs the error and sets \<open>isRecording\<close>
  to false. The effect asks for the stream only when \<open>isRecording\<close> is true and no audio
  context exists yet, and does nothing otherwise. When it asks, the handler runs if
  the promise rejects (permission denied or device absent) and also if the body of
  \<open>then\<close> throws after the stream was acquired; a resolved stream with no exception
  sets the analyser and logs nothing; an exception thrown synchronously by the effect
  is not handled. The handler is the only path of the effect that logs or resets.
\<close>

theorem acquisition_failure_resets:
  "catch_handler err s =
     (s\<lparr>isRecording := False\<rparr>, [ConsoleError ''Error accessing audio device:'' err])
   \<and> \<not> isRecording (fst (catch_handler err s))
   \<and> (isRecording st \<and> audioContext st = None \<longrightarrow>
        setup_audio_effect (StreamRejected err) st =
          Inr (st\<lparr>audioContext := Some AudioContext, isRecording := False\<rparr>,
               [ConsoleError ''Error accessing audio device:'' err])
        \<and> setup_audio_effect (GraphThrows err) st =
          Inr (st\<lparr>audioContext := Some AudioContext, isRecording := False\<rparr>,
               [ConsoleError ''Error accessing audio device:'' err])
        \<and> setup_audio_effect StreamResolved st =
          Inr (st\<lparr>audioContext := Some AudioContext, analyser := Some \<lparr>fftSize = 2048\<rparr>\<rparr>, [])
        \<and> setup_audio_effect (ContextThrows err) st = Inl (Uncaught err)
        \<and> setup_audio_effect (GetUserMediaThrows err) st = Inl (Uncaught err))
   \<and> (\<not> (isRecording st \<and> audioContext st = None) \<longrightarrow>
        setup_audio_effect outcome st = Inr (st, []))
   \<and> ((\<exists>s' effs. setup_audio_effect outcome st = Inr (s', effs) \<and> effs \<noteq> []) \<longleftrightarrow>
        (isRecording st \<and> audioContext st = None
         \<and> (\<exists>e. outcome = StreamRejected e \<or> outcome = GraphThrows e)))
   \<and> (\<forall>s' effs. setup_audio_effect outcome st = Inr (s', effs) \<and> effs \<noteq> [] \<longrightarrow>
        \<not> isRecording s')"
proof -
  have handler: "catch_handler err s =
     (s\<lparr>isRecording := False\<rparr>, [ConsoleError ''Error accessing audio device:'' err])"
    by (simp add: catch_handler_def)
  have attempt: "setup_audio_effect (StreamRejected err) st =
          Inr (st\<lparr>audioContext := Some AudioContext, isRecording := False\<rparr>,
               [ConsoleError ''Error accessing audio device:'' err])
        \<and> setup_audio_effect (GraphThrows err) st =
          Inr (st\<lparr>audioContext := Some AudioContext, isRecording := False\<rparr>,
               [ConsoleError ''Error accessing audio device:'' err])
        \<and> setup_audio_effect StreamResolved st =
          Inr (st\<lparr>audioContext := Some AudioContext, analyser := Some \<lparr>fftSize = 2048\<rparr>\<rparr>, [])
        \<and> setup_audio_effect (ContextThrows err) st = Inl (Uncaught err)
        \<and> setup_audio_effect (GetUserMediaThrows err) st = Inl (Uncaught err)"
    if "isRecording st \<and> audioContext st = None"
    using that by (simp add: setup_audio_effect_def catch_handler_def then_handler_def)
  have idle: "setup_audio_effect outcome st = Inr (st, [])"
    if "\<not> (isRecording st \<and> audioContext st = None)"
    unfolding setup_audio_effect_def using that by (simp only: if_False)
  have only: "(\<exists>s' effs. setup_audio_effect outcome st = Inr (s', effs) \<and> effs \<noteq> []) \<longleftrightarrow>
        (isRecording st \<and> audioContext st = None
         \<and> (\<exists>e. outcome = StreamRejected e \<or> outcome = GraphThrows e))"
  proof (cases "isRecording st \<and> audioContext st = None")
    case True
    then show ?thesis
      by (cases outcome)
        (simp_all add: setup_audio_effect_def catch_handler_def then_handler_def)
  next
    case False
    with idle show ?thesis by simp
  qed
  have reset: "\<forall>s' effs. setup_audio_effect outcome st = Inr (s', effs) \<and> effs \<noteq> [] \<longrightarrow>
        \<not> isRecording s'"
  proof (cases "isRecording st \<and> audioContext st = None")
    case True
    then show ?thesis
      by (cases outcome)
        (simp_all add: setup_audio_effect_def catch_handler_def then_handler_def)
  next
    case False
    with idle show ?thesis by simp
  qed
  have off: "\<not> isRecording (fst (catch_handler err s))"
    by (simp add: handler)
  from handler off attempt idle only reset show ?thesis by blast
qed

theorem acquisition_failure_resets_witness:
  "isRecording (initial_state\<lparr>isRecording := True\<rparr>)
   \<and> audioContext (initial_state\<lparr>isRecording := True\<rparr>) = None
   \<and> setup_audio_effect (StreamRejected ''NotAllowedError'') (initial_state\<lparr>isRecording := True\<rparr>) =
       Inr (initial_state\<lparr>audioContext := Some AudioContext\<rparr>,
            [ConsoleError ''Error accessing audio device:'' ''NotAllowedError''])
   \<and> \<not> (isRecording initial_state \<and> audioContext initial_state = None)
   \<and> setup_audio_effect (StreamRejected ''NotAllowedError'') initial_state =
       Inr (initial_state, [])"
proof -
  have a: "isRecording (initial_state\<lparr>isRecording := True\<rparr>)
           \<and> audioContext (initial_state\<lparr>isRecording := True\<rparr>) = None"
    by (simp add: initial_state_def)
  have b: "\<not> (isRecording initial_state \<and> audioContext initial_state = None)"
    by (simp add: initial_state_def)
  from acquisition_failure_resets
         [of "''NotAllowedError''" initial_state "initial_state\<lparr>isRecording := True\<rparr>"
             "StreamRejected ''NotAllowedError''"] a
  have r1: "setup_audio_effect (StreamRejected ''NotAllowedError'')
              (initial_state\<lparr>isRecording := True\<rparr>) =
            Inr (initial_state\<lparr>isRecording := True, audioContext := Some AudioContext,
                               isRecording := False\<rparr>,
                 [ConsoleError ''Error accessing audio device:'' ''NotAllowedError''])"
    by blast
  from acquisition_failure_resets
         [of "''NotAllowedError''" initial_state initial_state
             "StreamRejected ''NotAllowedError''"] b
  have r2: "setup_audio_effect (StreamRejected ''NotAllowedError'') initial_state =
            Inr (initial_state, [])"
    by blast
  from a b show ?thesis unfolding r1 r2 by (simp add: initial_state_def)
qed

section \<open>Properties of switching the tab\<close>

lemma pane_entered:
  "\<not> wasActive \<Longrightarrow>
   pane_after_switch keepMounted effect [] wasActive True pane =
     Some (effect True (history_or_empty pane))"
  by (simp add: pane_after_switch_def history_or_empty_def split: option.split)

lemma spectrograph_pane_not_entered:
  "pane_after_switch keepMounted (spectrograph_effect data) [] wasActive False pane =
     (if keepMounted then Some (history_or_empty pane) else None)"
  by (simp add: pane_after_switch_def history_or_empty_def spectrograph_effect_def
      split: option.split)

lemma time_series_pane_not_entered:
  "pane_after_switch keepMounted (time_series_effect data) [] wasActive False pane =
     (if keepMounted then Some (history_or_empty pane) else None)"
  by (simp add: pane_after_switch_def history_or_empty_def time_series_effect_def
      split: option.split)

text \<open>
  The claim C8 as it is written fails. The view that is entered runs its effect, which
  is keyed on \<open>isActive\<close>, and processes the current buffer once more: with a buffer
  present, switching to the time series adds a point to its history, whether the
  panes are kept mounted or not. When the panes of inactive tabs are unmounted, the
  history of the view that is left is lost.
\<close>

theorem tab_switch_changes_history:
  "timeSeriesData
     (tabs_onValueChange True ''timeSeries''
        \<lparr>app = initial_state\<lparr>audioData := Some [1/2]\<rparr>,
         spectrumHistory = Some [], timeSeriesData = Some []\<rparr>) = Some [Num (1/2)]
   \<and> timeSeriesData
       (tabs_onValueChange False ''timeSeries''
          \<lparr>app = initial_state\<lparr>audioData := Some [1/2]\<rparr>,
           spectrumHistory = None, timeSeriesData = None\<rparr>) = Some [Num (1/2)]
   \<and> spectrumHistory
       (tabs_onValueChange False ''waveform''
          \<lparr>app = initial_state\<lparr>visualizationType := ''spectrograph''\<rparr>,
           spectrumHistory = Some [replicate 256 0], timeSeriesData = None\<rparr>) = None"
  by (simp add: tabs_onValueChange_def setVisualizationType_def pane_after_switch_def
      time_series_effect_def newDataPoint_def append_point_def initial_state_def Let_def)

text \<open>
  C8, amended. Switching the tab changes only \<open>visualizationType\<close> in the state of the
  parent: the recorded data, the current buffer and every other field are unchanged.
  The histories of the views are not preserved. The view that is entered runs its
  effect once on the current buffer, from the history it had (from the empty history
  if it was not mounted); any other view keeps its history if its pane stays mounted
  and has none if it does not. Selecting the tab that is shown changes nothing.
\<close>

theorem tab_switch_effect:
  "app (tabs_onValueChange keepMounted v d) = (app d)\<lparr>visualizationType := v\<rparr>
   \<and> recordedData (app (tabs_onValueChange keepMounted v d)) = recordedData (app d)
   \<and> audioData (app (tabs_onValueChange keepMounted v d)) = audioData (app d)
   \<and> isRecording (app (tabs_onValueChange keepMounted v d)) = isRecording (app d)
   \<and> gain (app (tabs_onValueChange keepMounted v d)) = gain (app d)
   \<and> (v = visualizationType (app d) \<longrightarrow> tabs_onValueChange keepMounted v d = d)
   \<and> (v \<noteq> visualizationType (app d) \<longrightarrow>
        spectrumHistory (tabs_onValueChange keepMounted v d) =
          (if v = ''spectrograph''
           then Some (spectrograph_effect (audioData (app d)) True
                        (history_or_empty (spectrumHistory d)))
           else if keepMounted then Some (history_or_empty (spectrumHistory d)) else None)
        \<and> timeSeriesData (tabs_onValueChange keepMounted v d) =
          (if v = ''timeSeries''
           then Some (time_series_effect (audioData (app d)) True
                        (history_or_empty (timeSeriesData d)))
           else if keepMounted then Some (history_or_empty (timeSeriesData d)) else None))"
proof -
  let ?d = "tabs_onValueChange keepMounted v d"
  have same: "?d = d" if "v = visualizationType (app d)"
    using that by (simp add: tabs_onValueChange_def)
  have parent: "app ?d = (app d)\<lparr>visualizationType := v\<rparr>"
    by (simp add: tabs_onValueChange_def setVisualizationType_def Let_def)
  have data: "audioData (setVisualizationType w (app d)) = audioData (app d)" for w
    by (simp add: setVisualizationType_def)
  have spec: "spectrumHistory ?d =
          (if v = ''spectrograph''
           then Some (spectrograph_effect (audioData (app d)) True
                        (history_or_empty (spectrumHistory d)))
           else if keepMounted then Some (history_or_empty (spectrumHistory d)) else None)"
    if "v \<noteq> visualizationType (app d)"
  proof (cases "v = ''spectrograph''")
    case True
    with that have "\<not> visualizationType (app d) = ''spectrograph''" by simp
    with that True show ?thesis
      by (simp add: tabs_onValueChange_def Let_def data pane_entered)
  next
    case False
    with that show ?thesis
      by (simp add: tabs_onValueChange_def Let_def data spectrograph_pane_not_entered)
  qed
  have series: "timeSeriesData ?d =
          (if v = ''timeSeries''
           then Some (time_series_effect (audioData (app d)) True
                        (history_or_empty (timeSeriesData d)))
           else if keepMounted then Some (history_or_empty (timeSeriesData d)) else None)"
    if "v \<noteq> visualizationType (app d)"
  proof (cases "v = ''timeSeries''")
    case True
    with that have "\<not> visualizationType (app d) = ''timeSeries''" by simp
    with that True show ?thesis
      by (simp add: tabs_onValueChange_def Let_def data pane_entered)
  next
    case False
    with that show ?thesis
      by (simp add: tabs_onValueChange_def Let_def data time_series_pane_not_entered)
  qed
  from parent have fields:
    "recordedData (app ?d) = recordedData (app d)"
    "audioData (app ?d) = audioData (app d)"
    "isRecording (app ?d) = isRecording (app d)"
    "gain (app ?d) = gain (app d)"
    by simp_all
  from parent fields same spec series show ?thesis by blast
qed

theorem tab_switch_effect_witness:
  "''timeSeries'' \<noteq> visualizationType (app
       \<lparr>app = initial_state\<lparr>audioData := Some [1/2]\<rparr>,
        spectrumHistory = None, timeSeriesData = None\<rparr>)
   \<and> tabs_onValueChange False ''timeSeries''
        \<lparr>app = initial_state\<lparr>audioData := Some [1/2]\<rparr>,
         spectrumHistory = None, timeSeriesData = None\<rparr> =
       \<lparr>app = initial_state\<lparr>audioData := Some [1/2], visualizationType := ''timeSeries''\<rparr>,
        spectrumHistory = None, timeSeriesData = Some [Num (1/2)]\<rparr>
   \<and> ''waveform'' = visualizationType (app
       \<lparr>app = initial_state, spectrumHistory = None, timeSeriesData = None\<rparr>)
   \<and> tabs_onValueChange False ''waveform''
        \<lparr>app = initial_state, spectrumHistory = None, timeSeriesData = None\<rparr> =
       \<lparr>app = initial_state, spectrumHistory = None, timeSeriesData = None\<rparr>"
proof -
  let ?d = "\<lparr>app = initial_state\<lparr>audioData := Some [1/2]\<rparr>,
             spectrumHistory = None, timeSeriesData = None\<rparr>"
  let ?e = "\<lparr>app = initial_state, spectrumHistory = None, timeSeriesData = None\<rparr>"
  have n: "''timeSeries'' \<noteq> visualizationType (app ?d)" by (simp add: initial_state_def)
  have w: "''waveform'' = visualizationType (app ?e)" by (simp add: initial_state_def)
  note t = tab_switch_effect [of False "''timeSeries''" ?d]
  from t have p: "app (tabs_onValueChange False ''timeSeries'' ?d) =
      (app ?d)\<lparr>visualizationType := ''timeSeries''\<rparr>" by blast
  from t n have h: "spectrumHistory (tabs_onValueChange False ''timeSeries'' ?d) = None"
    by simp
  from t n have "timeSeriesData (tabs_onValueChange False ''timeSeries'' ?d) =
      Some (time_series_effect (audioData (app ?d)) True (history_or_empty (timeSeriesData ?d)))"
    by simp
  then have s: "timeSeriesData (tabs_onValueChange False ''timeSeries'' ?d) = Some [Num (1/2)]"
    by (simp add: time_series_effect_def newDataPoint_def append_point_def history_or_empty_def)
  from p h s have one: "tabs_onValueChange False ''timeSeries'' ?d =
       \<lparr>app = initial_state\<lparr>audioData := Some [1/2], visualizationType := ''timeSeries''\<rparr>,
        spectrumHistory = None, timeSeriesData = Some [Num (1/2)]\<rparr>"
    by (cases "tabs_onValueChange False ''timeSeries'' ?d") (simp add: initial_state_def)
  from tab_switch_effect [of False "''waveform''" ?e] w
  have two: "tabs_onValueChange False ''waveform'' ?e = ?e" by blast
  from n w one two show ?thesis by blast
qed

end
